theory Spec2Isabelle
  imports Main "HOL-Library.AList"
begin

section \<open>Values of the program\<close>

text \<open>
  The Lambda function of \<^verbatim>\<open>lambda/index.js\<close> handles JSON values: the parsed request
  body, the items of the table and the results of the action handlers. A JavaScript
  object is the list of its properties; a value that may be \<^verbatim>\<open>undefined\<close> is an
  \<open>option\<close>. Only integer numbers are modelled (the source writes \<^verbatim>\<open>price: 10\<close>).
\<close>

datatype jv =
    JNull
  | JBool bool
  | JNum int
  | JStr string
  | JArr "jv list"
  | JObj "(string \<times> jv) list"

text \<open>
  What an invocation can end with instead of a value: the exceptions of the language
  and the rejections of the table client.
\<close>

datatype error =
    TypeError
  | SyntaxError
  | ValidationException
  | ParameterValidationError

text \<open>
  Property access \<^verbatim>\<open>data.k\<close>: a \<^verbatim>\<open>TypeError\<close> on \<^verbatim>\<open>undefined\<close> and \<^verbatim>\<open>null\<close>,
  the property of an object, and \<^verbatim>\<open>undefined\<close> on the primitives and arrays (the
  handlers only read \<^verbatim>\<open>userId\<close>, \<^verbatim>\<open>password\<close> and \<^verbatim>\<open>id\<close>, which no prototype
  defines).
\<close>

fun get_prop :: "jv option \<Rightarrow> string \<Rightarrow> error + jv option" where
  "get_prop None k = Inl TypeError"
| "get_prop (Some JNull) k = Inl TypeError"
| "get_prop (Some (JObj ps)) k = Inr (map_of ps k)"
| "get_prop (Some v) k = Inr None"

text \<open>The strict equality \<^verbatim>\<open>===\<close>: by value on primitives, by identity on objects and
  arrays; the two operands of the source's only comparison come from the table response
  and from the parsed request, so two objects or arrays are never the same one.\<close>

fun strict_eq :: "jv option \<Rightarrow> jv option \<Rightarrow> bool" where
  "strict_eq None None = True"
| "strict_eq (Some JNull) (Some JNull) = True"
| "strict_eq (Some (JBool a)) (Some (JBool b)) = (a = b)"
| "strict_eq (Some (JNum a)) (Some (JNum b)) = (a = b)"
| "strict_eq (Some (JStr a)) (Some (JStr b)) = (a = b)"
| "strict_eq a b = False"

subsection \<open>Object spread\<close>

fun digit :: "nat \<Rightarrow> char" where
  "digit n = char_of (48 + n)"

fun dec :: "nat \<Rightarrow> string" where
  "dec n = (if n < 10 then [digit n] else dec (n div 10) @ [digit (n mod 10)])"

declare dec.simps [simp del]

text \<open>The own enumerable properties that \<^verbatim>\<open>...data\<close> copies: those of an object, the
  indexed elements of an array and characters of a string, none for the other values.\<close>

fun own_props :: "jv option \<Rightarrow> (string \<times> jv) list" where
  "own_props (Some (JObj ps)) = ps"
| "own_props (Some (JArr xs)) = zip (map dec [0..<length xs]) xs"
| "own_props (Some (JStr s)) = zip (map dec [0..<length s]) (map (\<lambda>c. JStr [c]) s)"
| "own_props v = []"

text \<open>Copying properties into an object under construction: each one is set in turn,
  a property already there keeps its place and takes the new value.\<close>

definition assign :: "(string \<times> jv) list \<Rightarrow> (string \<times> jv) list \<Rightarrow> (string \<times> jv) list" where
  "assign ps obj = foldl (\<lambda>acc p. AList.update (fst p) (snd p) acc) obj ps"

section \<open>The table\<close>

text \<open>
  The table \<^verbatim>\<open>EcommerceData\<close> is keyed by the strings \<^verbatim>\<open>context\<close> (partition key) and
  \<^verbatim>\<open>id\<close> (sort key). The document client is modelled by what its operations do to the
  table: \<^verbatim>\<open>get\<close> reads the keyed item, \<^verbatim>\<open>put\<close> replaces or creates the item under the
  key its attributes give, \<^verbatim>\<open>update\<close> with \<^verbatim>\<open>set f = :c\<close> edits the keyed item or
  creates it from the key and the one attribute when it is not there, \<^verbatim>\<open>delete\<close>
  removes the keyed item, \<^verbatim>\<open>query\<close> on the partition key returns the items of one
  context. The service rejects a key attribute that is not a string or is the empty
  string (\<^verbatim>\<open>ValidationException\<close>), and the client's parameter validation rejects a
  request without its required \<^verbatim>\<open>Key\<close> parameter. Transport faults, throttling, size
  limits and paging are outside the model.
\<close>

type_synonym item = "(string \<times> jv) list"
type_synonym table = "((string \<times> string) \<times> item) list"

definition TABLE_NAME :: string where
  "TABLE_NAME = ''EcommerceData''"

fun key_of :: "jv option \<Rightarrow> jv option \<Rightarrow> (string \<times> string) option" where
  "key_of (Some (JStr c)) (Some (JStr i)) = (if c = [] \<or> i = [] then None else Some (c, i))"
| "key_of c i = None"

definition ddb_get :: "string \<Rightarrow> (jv option \<times> jv option) option \<Rightarrow> table \<Rightarrow> error + item option" where
  "ddb_get tn key t =
     (case key of
        None \<Rightarrow> Inl ParameterValidationError
      | Some (c, i) \<Rightarrow>
          (case key_of c i of
             None \<Rightarrow> Inl ValidationException
           | Some k \<Rightarrow> Inr (map_of t k)))"

definition ddb_put :: "string \<Rightarrow> item \<Rightarrow> table \<Rightarrow> error + table" where
  "ddb_put tn it t =
     (case key_of (map_of it ''context'') (map_of it ''id'') of
        None \<Rightarrow> Inl ValidationException
      | Some k \<Rightarrow> Inr (AList.update k it t))"

definition ddb_update ::
  "string \<Rightarrow> (jv option \<times> jv option) option \<Rightarrow> string \<Rightarrow> jv \<Rightarrow> table \<Rightarrow> error + table" where
  "ddb_update tn key f v t =
     (case key of
        None \<Rightarrow> Inl ParameterValidationError
      | Some (c, i) \<Rightarrow>
          (case key_of c i of
             None \<Rightarrow> Inl ValidationException
           | Some k \<Rightarrow>
               Inr (AList.update k
                      (case map_of t k of
                         Some it \<Rightarrow> AList.update f v it
                       | None \<Rightarrow> [(''context'', JStr (fst k)), (''id'', JStr (snd k)), (f, v)])
                      t)))"

definition ddb_delete :: "string \<Rightarrow> (jv option \<times> jv option) option \<Rightarrow> table \<Rightarrow> error + table" where
  "ddb_delete tn key t =
     (case key of
        None \<Rightarrow> Inl ParameterValidationError
      | Some (c, i) \<Rightarrow>
          (case key_of c i of
             None \<Rightarrow> Inl ValidationException
           | Some k \<Rightarrow> Inr (AList.delete k t)))"

definition ddb_query :: "string \<Rightarrow> string \<Rightarrow> table \<Rightarrow> item list" where
  "ddb_query tn c t = map snd (filter (\<lambda>e. fst (fst e) = c) t)"

section \<open>Tokens\<close>

text \<open>
  The \<^verbatim>\<open>jsonwebtoken\<close> library is modelled symbolically. A string offered as a token
  is either the compact form of some claims signed under a key, or any other string.
  Signing records the claims and the key. Verification needs a key, accepts only the key
  the token was signed under, and compares the expiry claim with the clock in whole
  seconds: the token is expired as soon as \<^verbatim>\<open>Math.floor(Date.now() / 1000) >= exp\<close>.
  The issued-at claim that signing adds plays no part in verification and is left out.
  The payload travels as JSON, which the values of type \<open>jv\<close> survive unchanged.
\<close>

record claims =
  exp :: int
  data :: "jv option"

datatype jwt = Signed claims string | Other string

datatype jwt_error = JsonWebTokenError | TokenExpiredError

definition jwt_sign :: "claims \<Rightarrow> string \<Rightarrow> jwt" where
  "jwt_sign c k = Signed c k"

fun jwt_verify :: "jwt option \<Rightarrow> string option \<Rightarrow> int \<Rightarrow> jwt_error + claims" where
  "jwt_verify None secret now = Inl JsonWebTokenError"
| "jwt_verify (Some (Other s)) secret now = Inl JsonWebTokenError"
| "jwt_verify (Some (Signed c k)) None now = Inl JsonWebTokenError"
| "jwt_verify (Some (Signed c k)) (Some s) now =
     (if s = [] then Inl JsonWebTokenError
      else if k \<noteq> s then Inl JsonWebTokenError
      else if exp c \<le> now div 1000 then Inl TokenExpiredError
      else Inr c)"

record token_object =
  token :: jwt

text \<open>
  \<^verbatim>\<open>createToken\<close> and \<^verbatim>\<open>checkToken\<close> of the source. \<open>secret\<close> is \<^verbatim>\<open>process.env.SECRET\<close>
  (\<open>None\<close> when unset) and \<open>now\<close> is \<^verbatim>\<open>Date.now()\<close>, in milliseconds. The operator
  \<^verbatim>\<open>||\<close> takes the fallback when the variable is unset or empty.
\<close>

definition createToken :: "string option \<Rightarrow> int \<Rightarrow> jv option \<Rightarrow> token_object" where
  "createToken secret now info =
     \<lparr>token = jwt_sign \<lparr>exp = now div 1000 + 86400, data = info\<rparr>
        (case secret of
           None \<Rightarrow> ''SECRET''
         | Some s \<Rightarrow> if s = [] then ''SECRET'' else s)\<rparr>"

definition checkToken :: "string option \<Rightarrow> int \<Rightarrow> jwt option \<Rightarrow> jv option" where
  "checkToken secret now tok =
     (case jwt_verify tok secret now of
        Inr c \<Rightarrow> data c
      | Inl e \<Rightarrow> Some (JObj []))"

section \<open>Serialisation\<close>

text \<open>
  What a handler resolves to: \<^verbatim>\<open>undefined\<close>, a JSON value, or the object
  \<^verbatim>\<open>{ token }\<close> of \<^verbatim>\<open>createToken\<close>. \<^verbatim>\<open>JSON.stringify\<close> turns it into the text of the
  response body and yields \<^verbatim>\<open>undefined\<close> on \<^verbatim>\<open>undefined\<close>. The compact form of a token
  is a string of the library's making; it is the parameter \<open>enc\<close>.
\<close>

datatype reply = Undefined | Value jv | Token token_object

definition hex :: "nat \<Rightarrow> char" where
  "hex n = (if n < 10 then char_of (48 + n) else char_of (87 + n))"

definition escape :: "char \<Rightarrow> string" where
  "escape c =
     (if c = CHR 0x22 then [CHR 0x5C, CHR 0x22]
      else if c = CHR 0x5C then [CHR 0x5C, CHR 0x5C]
      else if c = CHR 0x08 then [CHR 0x5C, CHR ''b'']
      else if c = CHR 0x0C then [CHR 0x5C, CHR ''f'']
      else if c = CHR 0x0A then [CHR 0x5C, CHR ''n'']
      else if c = CHR 0x0D then [CHR 0x5C, CHR ''r'']
      else if c = CHR 0x09 then [CHR 0x5C, CHR ''t'']
      else if (of_char c :: nat) < 32
        then [CHR 0x5C, CHR ''u'', CHR ''0'', CHR ''0'', hex (of_char c div 16), hex (of_char c mod 16)]
      else [c])"

definition quote :: "string \<Rightarrow> string" where
  "quote s = [CHR 0x22] @ concat (map escape s) @ [CHR 0x22]"

fun commas :: "string list \<Rightarrow> string" where
  "commas [] = []"
| "commas [x] = x"
| "commas (x # xs) = x @ '','' @ commas xs"

fun stringify :: "jv \<Rightarrow> string" where
  "stringify JNull = ''null''"
| "stringify (JBool b) = (if b then ''true'' else ''false'')"
| "stringify (JNum i) = (if i < 0 then ''-'' @ dec (nat (- i)) else dec (nat i))"
| "stringify (JStr s) = quote s"
| "stringify (JArr xs) = ''['' @ commas (map stringify xs) @ '']''"
| "stringify (JObj ps) =
     ''{'' @ commas (map (\<lambda>(k, v). quote k @ '':'' @ stringify v) ps) @ ''}''"

fun JSON_stringify :: "(jwt \<Rightarrow> string) \<Rightarrow> reply \<Rightarrow> string option" where
  "JSON_stringify enc Undefined = None"
| "JSON_stringify enc (Value v) = Some (stringify v)"
| "JSON_stringify enc (Token t) =
     Some (''{'' @ quote ''token'' @ '':'' @ quote (enc (token t)) @ ''}'')"

section \<open>Action handlers\<close>

text \<open>
  An \<^verbatim>\<open>async\<close> handler either resolves to a value or rejects with an error, and leaves
  the table as its awaited client calls made it. The handlers take what they read from
  their surroundings as arguments: the secret, the clock, and the identifier that
  \<^verbatim>\<open>nanoid()\<close> returns.
\<close>

type_synonym outcome = "(error + reply) \<times> table"

definition login :: "string option \<Rightarrow> int \<Rightarrow> jv option \<Rightarrow> table \<Rightarrow> outcome" where
  "login secret now d t =
     (case get_prop d ''userId'' of
        Inl e \<Rightarrow> (Inl e, t)
      | Inr userId \<Rightarrow>
          (case ddb_get TABLE_NAME (Some (Some (JStr ''user''), userId)) t of
             Inl e \<Rightarrow> (Inl e, t)
           | Inr None \<Rightarrow> (Inr Undefined, t)
           | Inr (Some Item) \<Rightarrow>
               (case get_prop d ''password'' of
                  Inl e \<Rightarrow> (Inl e, t)
                | Inr password \<Rightarrow>
                    if strict_eq (map_of Item ''password'') password
                    then (Inr (Token (createToken secret now (map_of Item ''info''))), t)
                    else (Inr Undefined, t))))"

definition success :: reply where
  "success = Value (JObj [(''success'', JBool True)])"

definition createOrder :: "string \<Rightarrow> jv option \<Rightarrow> table \<Rightarrow> outcome" where
  "createOrder nid d t =
     (let order = AList.update ''orderStatus'' (JStr ''OPEN'')
                    (assign (own_props d) [(''context'', JStr ''order''), (''id'', JStr nid)])
      in case ddb_put TABLE_NAME order t of
           Inl e \<Rightarrow> (Inl e, t)
         | Inr t' \<Rightarrow> (Inr success, t'))"

definition completeOrder :: "jv option \<Rightarrow> table \<Rightarrow> outcome" where
  "completeOrder d t =
     (case get_prop d ''id'' of
        Inl e \<Rightarrow> (Inl e, t)
      | Inr i \<Rightarrow>
          (case ddb_update TABLE_NAME (Some (Some (JStr ''order''), i))
                  ''orderStatus'' (JStr ''CLOSED'') t of
             Inl e \<Rightarrow> (Inl e, t)
           | Inr t' \<Rightarrow> (Inr success, t')))"

definition reopenOrder :: "jv option \<Rightarrow> table \<Rightarrow> outcome" where
  "reopenOrder d t =
     (case get_prop d ''id'' of
        Inl e \<Rightarrow> (Inl e, t)
      | Inr i \<Rightarrow>
          (case ddb_update TABLE_NAME (Some (Some (JStr ''order''), i))
                  ''orderStatus'' (JStr ''OPEN'') t of
             Inl e \<Rightarrow> (Inl e, t)
           | Inr t' \<Rightarrow> (Inr success, t')))"

definition getItemList :: "jv option \<Rightarrow> table \<Rightarrow> outcome" where
  "getItemList d t = (Inr (Value (JArr (map JObj (ddb_query TABLE_NAME ''item'' t)))), t)"

definition getOrderList :: "table \<Rightarrow> outcome" where
  "getOrderList t = (Inr (Value (JArr (map JObj (ddb_query TABLE_NAME ''order'' t)))), t)"

definition addItem :: "string \<Rightarrow> jv option \<Rightarrow> table \<Rightarrow> outcome" where
  "addItem nid d t =
     (let item = assign (own_props d) [(''context'', JStr ''item''), (''id'', JStr nid)]
      in case ddb_put TABLE_NAME item t of
           Inl e \<Rightarrow> (Inl e, t)
         | Inr t' \<Rightarrow> (Inr Undefined, t'))"

text \<open>
  \<^verbatim>\<open>removeItem\<close> passes \<^verbatim>\<open>context\<close> and \<^verbatim>\<open>id\<close> beside \<^verbatim>\<open>TableName\<close>; its request has
  no \<^verbatim>\<open>Key\<close> parameter. \<^verbatim>\<open>data.id\<close> is read while the request is built.
\<close>

definition removeItem :: "jv option \<Rightarrow> table \<Rightarrow> outcome" where
  "removeItem d t =
     (case get_prop d ''id'' of
        Inl e \<Rightarrow> (Inl e, t)
      | Inr i \<Rightarrow>
          (case ddb_delete TABLE_NAME None t of
             Inl e \<Rightarrow> (Inl e, t)
           | Inr t' \<Rightarrow> (Inr Undefined, t')))"

definition seed_items :: "item list" where
  "seed_items =
     [[(''context'', JStr ''item''), (''id'', JStr ''1''), (''image'', JStr ''images/product01.jpg''),
       (''price'', JNum 10), (''title'', JStr ''Tank Top''), (''description'', JStr [])],
      [(''context'', JStr ''item''), (''id'', JStr ''2''), (''image'', JStr ''images/product02.jpg''),
       (''price'', JNum 10), (''title'', JStr ''Polo-Shirt''), (''description'', JStr [])],
      [(''context'', JStr ''item''), (''id'', JStr ''3''), (''image'', JStr ''images/product03.jpg''),
       (''price'', JNum 10), (''title'', JStr ''T-Shirt''), (''description'', JStr [])],
      [(''context'', JStr ''user''), (''id'', JStr ''admin''),
       (''password'', JStr ''cac28395540089e505a68311833c2cb5a92f84f4'')],
      [(''context'', JStr ''order''), (''id'', JStr ''1''), (''orderStatus'', JStr ''OPEN''),
       (''price'', JNum 10), (''title'', JStr ''Tank Top''), (''buyerName'', JStr ''Mark Zucherberg''),
       (''buyerAddress'', JStr ''1 Hacker Way, Menlo Park, 94025 CA, United States of America.'')],
      [(''context'', JStr ''order''), (''id'', JStr ''2''), (''orderStatus'', JStr ''OPEN''),
       (''price'', JNum 10), (''title'', JStr ''Polo-Shirt''), (''buyerName'', JStr ''Sundar Pitchai''),
       (''buyerAddress'', JStr ''1600 Amphitheatre Parkway, Mountain View, CA 94043'')],
      [(''context'', JStr ''order''), (''id'', JStr ''3''), (''orderStatus'', JStr ''OPEN''),
       (''price'', JNum 10), (''title'', JStr ''T-Shirt''), (''buyerName'', JStr ''Andy Jassy''),
       (''buyerAddress'', JStr ''410 Terry Ave N, Seattle, Washington 98109, US'')]]"

text \<open>\<^verbatim>\<open>Promise.all\<close> over the puts: every put is issued, and one rejection rejects the
  whole.\<close>

fun put_all :: "item list \<Rightarrow> table \<Rightarrow> error option \<times> table" where
  "put_all [] t = (None, t)"
| "put_all (i # rest) t =
     (case ddb_put ''EcommerceData'' i t of
        Inl e \<Rightarrow> (Some e, snd (put_all rest t))
      | Inr t' \<Rightarrow> put_all rest t')"

definition init :: "table \<Rightarrow> outcome" where
  "init t =
     (case put_all seed_items t of
        (None, t') \<Rightarrow> (Inr Undefined, t')
      | (Some e, t') \<Rightarrow> (Inl e, t'))"

section \<open>Request and response\<close>

text \<open>
  The proxy event. Its body is absent (\<^verbatim>\<open>undefined\<close>, \<^verbatim>\<open>null\<close> or the empty string),
  or a text that \<^verbatim>\<open>JSON.parse\<close> rejects, or a text that it parses to a value. The
  \<^verbatim>\<open>headers\<close> object may be missing.
\<close>

datatype body_text = No_body | Malformed | Json jv

record header_fields =
  Authorization :: "jwt option"
  x_api_key :: "string option"
  User_Agent :: "string option"

record proxy_event =
  ev_body :: body_text
  ev_queryStringParameters :: "(string \<times> string) list option"
  ev_path :: "string option"
  ev_httpMethod :: "string option"
  ev_sourceIp :: "string option"
  ev_headers :: "header_fields option"

record details =
  req_body :: jv
  req_query :: "(string \<times> string) list"
  req_path :: "string option"
  req_method :: "string option"
  req_source :: "string option"
  req_user :: "jv option"
  req_apiKey :: "string option"
  req_userAgent :: "string option"

definition extractEventDetails :: "string option \<Rightarrow> int \<Rightarrow> proxy_event \<Rightarrow> error + details" where
  "extractEventDetails secret now event =
     (case (case ev_body event of
              No_body \<Rightarrow> Inr (JObj [])
            | Malformed \<Rightarrow> Inl SyntaxError
            | Json v \<Rightarrow> Inr v) of
        Inl e \<Rightarrow> Inl e
      | Inr b \<Rightarrow>
          (let q = (case ev_queryStringParameters event of Some ps \<Rightarrow> ps | None \<Rightarrow> []);
               u = checkToken secret now
                     (case ev_headers event of None \<Rightarrow> None | Some h \<Rightarrow> Authorization h)
           in case ev_headers event of
                None \<Rightarrow> Inl TypeError
              | Some h \<Rightarrow>
                  Inr \<lparr>req_body = b, req_query = q, req_path = ev_path event,
                       req_method = ev_httpMethod event, req_source = ev_sourceIp event,
                       req_user = u, req_apiKey = x_api_key h, req_userAgent = User_Agent h\<rparr>))"

record response =
  statusCode :: nat
  headers :: "(string \<times> string) list"
  body :: "string option"

definition cors :: "(string \<times> string) list" where
  "cors = [(''Access-Control-Allow-Headers'', ''*''),
           (''Access-Control-Allow-Origin'', ''*''),
           (''Access-Control-Allow-Methods'', ''*'')]"

text \<open>\<^verbatim>\<open>respond\<close> awaits the handler's promise: a rejection rejects \<^verbatim>\<open>respond\<close> in turn.\<close>

definition respond :: "(jwt \<Rightarrow> string) \<Rightarrow> outcome \<Rightarrow> (error + response) \<times> table" where
  "respond enc r =
     (case fst r of
        Inl e \<Rightarrow> (Inl e, snd r)
      | Inr v \<Rightarrow> (Inr \<lparr>statusCode = 200, headers = cors, body = JSON_stringify enc v\<rparr>, snd r))"

text \<open>\<^verbatim>\<open>const { action, data } = event.body\<close>\<close>

fun destructure :: "jv \<Rightarrow> error + jv option \<times> jv option" where
  "destructure JNull = Inl TypeError"
| "destructure (JObj ps) = Inr (map_of ps ''action'', map_of ps ''data'')"
| "destructure v = Inr (None, None)"

text \<open>What one invocation reads from outside the event and the table.\<close>

record ambient =
  SECRET :: "string option"
  clock_verify :: int
  clock_issue :: int
  nanoid :: string

definition handler :: "(jwt \<Rightarrow> string) \<Rightarrow> ambient \<Rightarrow> proxy_event \<Rightarrow> table \<Rightarrow> (error + response) \<times> table" where
  "handler enc w ev t =
     (case extractEventDetails (SECRET w) (clock_verify w) ev of
        Inl e \<Rightarrow> (Inl e, t)
      | Inr event \<Rightarrow>
          (case destructure (req_body event) of
             Inl e \<Rightarrow> (Inl e, t)
           | Inr (action, d) \<Rightarrow>
               if action = Some (JStr ''INIT'') then respond enc (init t)
               else if action = Some (JStr ''LOGIN'')
                 then respond enc (login (SECRET w) (clock_issue w) d t)
               else if action = Some (JStr ''ADD_ORDER'') then respond enc (createOrder (nanoid w) d t)
               else if action = Some (JStr ''ORDER_LIST'') then respond enc (getOrderList t)
               else if action = Some (JStr ''COMPLETE_ORDER'') then respond enc (completeOrder d t)
               else if action = Some (JStr ''REOPEN_ORDER'') then respond enc (reopenOrder d t)
               else if action = Some (JStr ''ITEM_LIST'') then respond enc (getItemList d t)
               else if action = Some (JStr ''ADD_ITEM'') then respond enc (addItem (nanoid w) d t)
               else if action = Some (JStr ''REMOVE_ITEM'') then respond enc (removeItem d t)
               else respond enc (Inr (Value (JObj [])), t)))"

text \<open>
  The handler call that the \<^verbatim>\<open>switch\<close> of \<^verbatim>\<open>handler\<close> passes to \<^verbatim>\<open>respond\<close> for
  an action and its data; the plain \<^verbatim>\<open>{}\<close> when no case matches.
\<close>

definition selected :: "ambient \<Rightarrow> jv option \<Rightarrow> jv option \<Rightarrow> table \<Rightarrow> outcome" where
  "selected w action d t =
     (if action = Some (JStr ''INIT'') then init t
      else if action = Some (JStr ''LOGIN'') then login (SECRET w) (clock_issue w) d t
      else if action = Some (JStr ''ADD_ORDER'') then createOrder (nanoid w) d t
      else if action = Some (JStr ''ORDER_LIST'') then getOrderList t
      else if action = Some (JStr ''COMPLETE_ORDER'') then completeOrder d t
      else if action = Some (JStr ''REOPEN_ORDER'') then reopenOrder d t
      else if action = Some (JStr ''ITEM_LIST'') then getItemList d t
      else if action = Some (JStr ''ADD_ITEM'') then addItem (nanoid w) d t
      else if action = Some (JStr ''REMOVE_ITEM'') then removeItem d t
      else (Inr (Value (JObj [])), t))"

section \<open>Auxiliary facts about property lists\<close>

lemma map_of_assign:
  "map_of (assign ps obj) k = (case map_of (rev ps) k of Some v \<Rightarrow> Some v | None \<Rightarrow> map_of obj k)"
  unfolding assign_def
  by (induction ps arbitrary: obj) (auto simp: update_conv' split: option.splits)

lemma map_of_assign_add: "map_of (assign ps obj) = map_of obj ++ map_of (rev ps)"
  by (simp add: fun_eq_iff map_of_assign map_add_def)

lemma update_absent: "map_of al k = None \<Longrightarrow> AList.update k v al = al @ [(k, v)]"
  by (induction al) (auto split: if_splits)

lemma update_twice: "AList.update k v (AList.update k v al) = AList.update k v al"
  by (induction al) auto

section \<open>Login\<close>




section \<open>Orders\<close>

text \<open>
  Claim C2. For every ADD_ORDER payload, also one that has an \<^verbatim>\<open>orderStatus\<close> field of its
  own, \<^verbatim>\<open>createOrder\<close> builds one record: the payload's properties over \<^verbatim>\<open>context\<close> and
  \<^verbatim>\<open>id\<close>, and over them \<^verbatim>\<open>orderStatus = "OPEN"\<close>. Whenever the key attributes of that
  record are non-empty strings, the call returns \<^verbatim>\<open>{success: true}\<close>, the table holds that
  record under its key, and no other entry of the table changes; the stored record's
  \<^verbatim>\<open>orderStatus\<close> is \<^verbatim>\<open>"OPEN"\<close>. Only when a key attribute is not a non-empty string
  is the put rejected, and then nothing is written.
\<close>

theorem createOrder_stores_OPEN:
  "\<exists>order.
      map_of order
        = (map_of [(''context'', JStr ''order''), (''id'', JStr nid)] ++ map_of (rev (own_props d)))
            (''orderStatus'' \<mapsto> JStr ''OPEN'')
    \<and> map_of order ''orderStatus'' = Some (JStr ''OPEN'')
    \<and> (\<forall>k. key_of (map_of order ''context'') (map_of order ''id'') = Some k \<longrightarrow>
          createOrder nid d t = (Inr success, AList.update k order t)
          \<and> map_of (snd (createOrder nid d t)) = (map_of t)(k \<mapsto> order))
    \<and> (key_of (map_of order ''context'') (map_of order ''id'') = None \<longrightarrow>
          createOrder nid d t = (Inl ValidationException, t))"
proof -
  define order where
    "order = AList.update ''orderStatus'' (JStr ''OPEN'')
               (assign (own_props d) [(''context'', JStr ''order''), (''id'', JStr nid)])"
  have attrs: "map_of order
        = (map_of [(''context'', JStr ''order''), (''id'', JStr nid)] ++ map_of (rev (own_props d)))
            (''orderStatus'' \<mapsto> JStr ''OPEN'')"
    unfolding order_def by (simp only: update_conv' map_of_assign_add)
  have st: "map_of order ''orderStatus'' = Some (JStr ''OPEN'')"
    by (simp add: order_def update_conv')
  have written: "createOrder nid d t = (Inr success, AList.update k order t)
          \<and> map_of (snd (createOrder nid d t)) = (map_of t)(k \<mapsto> order)"
    if "key_of (map_of order ''context'') (map_of order ''id'') = Some k" for k
  proof -
    from that have "createOrder nid d t = (Inr success, AList.update k order t)"
      by (simp add: createOrder_def ddb_put_def order_def)
    then show ?thesis by (simp add: update_conv')
  qed
  have rejected: "createOrder nid d t = (Inl ValidationException, t)"
    if "key_of (map_of order ''context'') (map_of order ''id'') = None"
    using that by (simp add: createOrder_def ddb_put_def order_def)
  show ?thesis
  proof (intro exI [of _ order] conjI allI impI)
    show "map_of order
        = (map_of [(''context'', JStr ''order''), (''id'', JStr nid)] ++ map_of (rev (own_props d)))
            (''orderStatus'' \<mapsto> JStr ''OPEN'')"
      by (rule attrs)
    show "map_of order ''orderStatus'' = Some (JStr ''OPEN'')"
      by (rule st)
    show "createOrder nid d t = (Inr success, AList.update k order t)"
      if "key_of (map_of order ''context'') (map_of order ''id'') = Some k" for k
      using written [OF that] by (rule conjunct1)
    show "map_of (snd (createOrder nid d t)) = (map_of t)(k \<mapsto> order)"
      if "key_of (map_of order ''context'') (map_of order ''id'') = Some k" for k
      using written [OF that] by (rule conjunct2)
    show "createOrder nid d t = (Inl ValidationException, t)"
      if "key_of (map_of order ''context'') (map_of order ''id'') = None"
      by (rule rejected [OF that])
  qed
qed

theorem createOrder_stores_OPEN_witness:
  "createOrder ''n1'' (Some (JObj [(''title'', JStr ''T-Shirt''), (''orderStatus'', JStr ''CLOSED'')])) []
     = (Inr success,
        [((''order'', ''n1''),
          [(''context'', JStr ''order''), (''id'', JStr ''n1''), (''title'', JStr ''T-Shirt''),
           (''orderStatus'', JStr ''OPEN'')])])
   \<and> key_of (map_of [(''context'', JStr ''order''), (''id'', JStr ''n1''), (''title'', JStr ''T-Shirt''),
                      (''orderStatus'', JStr ''OPEN'')] ''context'')
             (map_of [(''context'', JStr ''order''), (''id'', JStr ''n1''), (''title'', JStr ''T-Shirt''),
                      (''orderStatus'', JStr ''OPEN'')] ''id'')
       = Some (''order'', ''n1'')
   \<and> createOrder ''n1'' (Some (JObj [(''id'', JNum 5)])) [] = (Inl ValidationException, [])
   \<and> key_of (map_of [(''context'', JStr ''order''), (''id'', JNum 5), (''orderStatus'', JStr ''OPEN'')] ''context'')
             (map_of [(''context'', JStr ''order''), (''id'', JNum 5), (''orderStatus'', JStr ''OPEN'')] ''id'')
       = None"
  using createOrder_stores_OPEN
          [of "''n1''" "Some (JObj [(''title'', JStr ''T-Shirt''), (''orderStatus'', JStr ''CLOSED'')])" "[]"]
        createOrder_stores_OPEN [of "''n1''" "Some (JObj [(''id'', JNum 5)])" "[]"]
  by (simp add: createOrder_def ddb_put_def assign_def TABLE_NAME_def)

text \<open>
  The usual case of \<^verbatim>\<open>createOrder\<close>: a payload with no \<^verbatim>\<open>id\<close> and no \<^verbatim>\<open>context\<close>
  property is written under context \<^verbatim>\<open>"order"\<close> and the generated identifier.
\<close>

lemma createOrder_generated_key:
  assumes "''id'' \<notin> fst ` set (own_props d)"
      and "''context'' \<notin> fst ` set (own_props d)"
      and "nid \<noteq> []"
  shows "\<exists>order. createOrder nid d t = (Inr success, AList.update (''order'', nid) order t)
           \<and> map_of order ''id'' = Some (JStr nid)
           \<and> map_of order ''context'' = Some (JStr ''order'')"
proof -
  define order where
    "order = AList.update ''orderStatus'' (JStr ''OPEN'')
               (assign (own_props d) [(''context'', JStr ''order''), (''id'', JStr nid)])"
  have none: "map_of (rev (own_props d)) ''id'' = None" "map_of (rev (own_props d)) ''context'' = None"
    using assms(1,2) by (simp_all add: map_of_eq_None_iff)
  have i: "map_of order ''id'' = Some (JStr nid)"
    using none by (simp add: order_def update_conv' map_of_assign)
  have c: "map_of order ''context'' = Some (JStr ''order'')"
    using none by (simp add: order_def update_conv' map_of_assign)
  have "createOrder nid d t = (Inr success, AList.update (''order'', nid) order t)"
    using i c assms(3) by (simp add: createOrder_def ddb_put_def flip: order_def)
  with i c show ?thesis by blast
qed

text \<open>
  Claim C5, evaluated on the code. \<^verbatim>\<open>createOrder\<close> spreads the payload after \<^verbatim>\<open>context\<close>
  and \<^verbatim>\<open>id\<close>, so an ADD_ORDER payload with \<^verbatim>\<open>context\<close> and \<^verbatim>\<open>id\<close> fields of its
  own is written under that context and that id: here a record of context \<^verbatim>\<open>"user"\<close>
  under the id \<^verbatim>\<open>"admin"\<close>, and not an order under the generated identifier \<^verbatim>\<open>fresh\<close>.
\<close>

theorem createOrder_payload_key_evaluation:
  "createOrder ''fresh''
     (Some (JObj [(''context'', JStr ''user''), (''id'', JStr ''admin''), (''password'', JStr ''x'')])) []
   = (Inr success,
      [((''user'', ''admin''),
        [(''context'', JStr ''user''), (''id'', JStr ''admin''), (''password'', JStr ''x''),
         (''orderStatus'', JStr ''OPEN'')])])"
  by (simp add: createOrder_def ddb_put_def assign_def TABLE_NAME_def)

text \<open>
  Claim C8. For every existing order id, COMPLETE_ORDER twice in succession: both
  invocations return \<^verbatim>\<open>{success: true}\<close>, the order's \<^verbatim>\<open>orderStatus\<close> is \<^verbatim>\<open>"CLOSED"\<close> after
  the first, and the second leaves the table as the first made it.
\<close>

theorem completeOrder_twice:
  assumes "get_prop d ''id'' = Inr (Some (JStr i))"
      and "i \<noteq> []"
      and "map_of t (''order'', i) = Some order"
  shows "\<exists>t1 closed.
           completeOrder d t = (Inr success, t1)
         \<and> map_of t1 (''order'', i) = Some closed
         \<and> map_of closed ''orderStatus'' = Some (JStr ''CLOSED'')
         \<and> completeOrder d t1 = (Inr success, t1)"
proof -
  let ?closed = "AList.update ''orderStatus'' (JStr ''CLOSED'') order"
  let ?t1 = "AList.update (''order'', i) ?closed t"
  have first: "completeOrder d t = (Inr success, ?t1)"
    using assms by (simp add: completeOrder_def ddb_update_def)
  have stored: "map_of ?t1 (''order'', i) = Some ?closed"
    by (simp add: update_conv')
  have status: "map_of ?closed ''orderStatus'' = Some (JStr ''CLOSED'')"
    by (simp add: update_conv')
  have "completeOrder d ?t1
          = (Inr success,
             AList.update (''order'', i) (AList.update ''orderStatus'' (JStr ''CLOSED'') ?closed) ?t1)"
    using assms(1,2) stored by (simp add: completeOrder_def ddb_update_def)
  then have second: "completeOrder d ?t1 = (Inr success, ?t1)"
    by (simp add: update_twice)
  from first stored status second show ?thesis by blast
qed

theorem completeOrder_twice_witness:
  "get_prop (Some (JObj [(''id'', JStr ''1'')])) ''id'' = Inr (Some (JStr ''1''))
   \<and> ''1'' \<noteq> []
   \<and> map_of [((''order'', ''1''), [(''context'', JStr ''order''), (''id'', JStr ''1''),
                                    (''orderStatus'', JStr ''OPEN'')])] (''order'', ''1'')
       = Some [(''context'', JStr ''order''), (''id'', JStr ''1''), (''orderStatus'', JStr ''OPEN'')]
   \<and> (\<exists>t1 closed.
         completeOrder (Some (JObj [(''id'', JStr ''1'')]))
           [((''order'', ''1''), [(''context'', JStr ''order''), (''id'', JStr ''1''),
                                  (''orderStatus'', JStr ''OPEN'')])] = (Inr success, t1)
       \<and> map_of t1 (''order'', ''1'') = Some closed
       \<and> map_of closed ''orderStatus'' = Some (JStr ''CLOSED'')
       \<and> completeOrder (Some (JObj [(''id'', JStr ''1'')])) t1 = (Inr success, t1))"
  using completeOrder_twice [of "Some (JObj [(''id'', JStr ''1'')])" "''1''"
          "[((''order'', ''1''), [(''context'', JStr ''order''), (''id'', JStr ''1''),
                                  (''orderStatus'', JStr ''OPEN'')])]"
          "[(''context'', JStr ''order''), (''id'', JStr ''1''), (''orderStatus'', JStr ''OPEN'')]"]
  by simp

text \<open>
  Claim C3, as the code has it. \<^verbatim>\<open>reopenOrder\<close> updates without a condition on the
  record's existence. For every non-empty string id that keys no order record,
  REOPEN_ORDER returns \<^verbatim>\<open>{success: true}\<close> and adds, under context \<^verbatim>\<open>"order"\<close> and that
  id, a record that holds the two key attributes and \<^verbatim>\<open>orderStatus = "OPEN"\<close>; every other
  record stays as it was.
\<close>

theorem reopenOrder_creates_record:
  assumes "get_prop d ''id'' = Inr (Some (JStr i))"
      and "i \<noteq> []"
      and "map_of t (''order'', i) = None"
  shows "reopenOrder d t
           = (Inr success,
              t @ [((''order'', i),
                    [(''context'', JStr ''order''), (''id'', JStr i), (''orderStatus'', JStr ''OPEN'')])])
         \<and> map_of (snd (reopenOrder d t))
           = (map_of t)((''order'', i) \<mapsto>
                [(''context'', JStr ''order''), (''id'', JStr i), (''orderStatus'', JStr ''OPEN'')])"
proof -
  let ?new = "[(''context'', JStr ''order''), (''id'', JStr i), (''orderStatus'', JStr ''OPEN'')]"
  have r: "reopenOrder d t = (Inr success, AList.update (''order'', i) ?new t)"
    using assms by (simp add: reopenOrder_def ddb_update_def)
  have "AList.update (''order'', i) ?new t = t @ [((''order'', i), ?new)]"
    using assms(3) by (rule update_absent)
  moreover have "map_of (AList.update (''order'', i) ?new t) = (map_of t)((''order'', i) \<mapsto> ?new)"
    by (rule update_conv')
  ultimately show ?thesis using r by simp
qed

theorem reopenOrder_creates_record_witness:
  "get_prop (Some (JObj [(''id'', JStr ''42'')])) ''id'' = Inr (Some (JStr ''42''))
   \<and> ''42'' \<noteq> []
   \<and> map_of [((''order'', ''1''), [(''context'', JStr ''order''), (''id'', JStr ''1''),
                                    (''orderStatus'', JStr ''CLOSED'')])] (''order'', ''42'') = None
   \<and> reopenOrder (Some (JObj [(''id'', JStr ''42'')]))
        [((''order'', ''1''), [(''context'', JStr ''order''), (''id'', JStr ''1''),
                               (''orderStatus'', JStr ''CLOSED'')])]
       = (Inr success,
          [((''order'', ''1''), [(''context'', JStr ''order''), (''id'', JStr ''1''),
                                 (''orderStatus'', JStr ''CLOSED'')]),
           ((''order'', ''42''),
            [(''context'', JStr ''order''), (''id'', JStr ''42''), (''orderStatus'', JStr ''OPEN'')])])"
  using reopenOrder_creates_record [of "Some (JObj [(''id'', JStr ''42'')])" "''42''"
          "[((''order'', ''1''), [(''context'', JStr ''order''), (''id'', JStr ''1''),
                                  (''orderStatus'', JStr ''CLOSED'')])]"]
  by simp

text \<open>
  Claim C3 as stated fails: on the empty table the id \<^verbatim>\<open>"42"\<close> keys no order, and
  REOPEN_ORDER on it does not fail but returns \<^verbatim>\<open>{success: true}\<close> and leaves a new record
  in the table.
\<close>

theorem reopenOrder_phantom_counterexample:
  "map_of ([] :: table) (''order'', ''42'') = None
   \<and> reopenOrder (Some (JObj [(''id'', JStr ''42'')])) []
       = (Inr success,
          [((''order'', ''42''),
            [(''context'', JStr ''order''), (''id'', JStr ''42''), (''orderStatus'', JStr ''OPEN'')])])"
  by (simp add: reopenOrder_def ddb_update_def)

section \<open>Properties of the token service\<close>

text \<open>
  Claim C10. When \<^verbatim>\<open>process.env.SECRET\<close> is unset, \<^verbatim>\<open>createToken\<close> signs under the
  fallback key \<^verbatim>\<open>"SECRET"\<close> and \<^verbatim>\<open>checkToken\<close> verifies against the unset value: for
  every payload, every issuance time and every check time, checking the token just
  issued yields the empty identity \<^verbatim>\<open>{}\<close>.
\<close>

theorem unset_secret_round_trip_empty:
  "token (createToken None now info)
     = jwt_sign \<lparr>exp = now div 1000 + 86400, data = info\<rparr> ''SECRET''
   \<and> checkToken None now' (Some (token (createToken None now info))) = Some (JObj [])"
  by (simp add: checkToken_def createToken_def jwt_sign_def)

text \<open>
  Claim C7, as the code has it. With the signing secret set, for every payload and every
  issuance time \<open>T\<close> (milliseconds, as \<^verbatim>\<open>Date.now()\<close> gives it), a check at time \<open>t\<close>
  yields the payload exactly when \<open>t\<close>, in whole seconds, is before \<open>T\<close> in whole seconds
  plus 86400, and the empty identity otherwise. So every check at or after \<open>T\<close> + 24 h
  yields the empty identity, and every check not later than one second before
  \<open>T\<close> + 24 h yields the payload.
\<close>

theorem token_valid_whole_seconds:
  assumes "s \<noteq> []"
  shows "checkToken (Some s) t (Some (token (createToken (Some s) T info)))
           = (if t div 1000 < T div 1000 + 86400 then info else Some (JObj []))
         \<and> (T + 86400000 \<le> t \<longrightarrow>
              checkToken (Some s) t (Some (token (createToken (Some s) T info))) = Some (JObj []))
         \<and> (t + 1000 \<le> T + 86400000 \<longrightarrow>
              checkToken (Some s) t (Some (token (createToken (Some s) T info))) = info)"
proof -
  have eq: "checkToken (Some s) t (Some (token (createToken (Some s) T info)))
           = (if t div 1000 < T div 1000 + 86400 then info else Some (JObj []))"
    using assms by (simp add: checkToken_def createToken_def jwt_sign_def)
  have late: "T + 86400000 \<le> t \<Longrightarrow> \<not> t div 1000 < T div 1000 + 86400" by linarith
  have early: "t + 1000 \<le> T + 86400000 \<Longrightarrow> t div 1000 < T div 1000 + 86400" by linarith
  show ?thesis using eq late early by simp
qed

theorem token_valid_whole_seconds_witness:
  "''k'' \<noteq> []
   \<and> (500::int) + 86400000 \<le> 86400500
   \<and> (1000::int) + 1000 \<le> 500 + 86400000
   \<and> checkToken (Some ''k'') 1000 (Some (token (createToken (Some ''k'') 500 (Some (JStr ''u'')))))
       = Some (JStr ''u'')
   \<and> checkToken (Some ''k'') 86400500 (Some (token (createToken (Some ''k'') 500 (Some (JStr ''u'')))))
       = Some (JObj [])"
  using token_valid_whole_seconds [of "''k''" 1000 500 "Some (JStr ''u'')"]
        token_valid_whole_seconds [of "''k''" 86400500 500 "Some (JStr ''u'')"]
  by simp

text \<open>
  Claim C7 as stated fails in the last second: a token issued at \<open>T\<close> = 500 ms expires at
  second 86400, so the check at \<open>t\<close> = 86400000 ms, which is before \<open>T\<close> + 24 h, yields
  the empty identity and not the payload.
\<close>

theorem token_last_second_counterexample:
  "(86400000::int) < 500 + 86400000
   \<and> checkToken (Some ''k'') 86400000 (Some (token (createToken (Some ''k'') 500 (Some (JStr ''u'')))))
       = Some (JObj [])
   \<and> Some (JObj []) \<noteq> Some (JStr ''u'')"
  by (simp add: checkToken_def createToken_def jwt_sign_def)

section \<open>Items\<close>

text \<open>\<^verbatim>\<open>removeItem\<close> rejects whatever its data and leaves the table as it was.\<close>

lemma removeItem_never_deletes: "snd (removeItem d t) = t \<and> (\<exists>e. fst (removeItem d t) = Inl e)"
  by (auto simp: removeItem_def ddb_delete_def split: sum.splits)

text \<open>
  Claim C6, evaluated on the code: ADD_ITEM of the payload \<^verbatim>\<open>{title: "T-Shirt"}\<close> on the
  empty table stores the record under the generated id \<^verbatim>\<open>n1\<close>; REMOVE_ITEM with that id
  rejects, its delete request having no \<^verbatim>\<open>Key\<close>, and the table keeps the record;
  ITEM_LIST then still lists it.
\<close>

theorem removeItem_keeps_item_evaluation:
  "addItem ''n1'' (Some (JObj [(''title'', JStr ''T-Shirt'')])) []
     = (Inr Undefined,
        [((''item'', ''n1''), [(''context'', JStr ''item''), (''id'', JStr ''n1''), (''title'', JStr ''T-Shirt'')])])
   \<and> removeItem (Some (JObj [(''id'', JStr ''n1'')]))
        [((''item'', ''n1''), [(''context'', JStr ''item''), (''id'', JStr ''n1''), (''title'', JStr ''T-Shirt'')])]
     = (Inl ParameterValidationError,
        [((''item'', ''n1''), [(''context'', JStr ''item''), (''id'', JStr ''n1''), (''title'', JStr ''T-Shirt'')])])
   \<and> getItemList None
        [((''item'', ''n1''), [(''context'', JStr ''item''), (''id'', JStr ''n1''), (''title'', JStr ''T-Shirt'')])]
     = (Inr (Value (JArr [JObj [(''context'', JStr ''item''), (''id'', JStr ''n1''), (''title'', JStr ''T-Shirt'')]])),
        [((''item'', ''n1''), [(''context'', JStr ''item''), (''id'', JStr ''n1''), (''title'', JStr ''T-Shirt'')])])"
  by (simp add: addItem_def removeItem_def getItemList_def ddb_put_def ddb_delete_def ddb_query_def
        assign_def TABLE_NAME_def)

section \<open>The dispatcher\<close>

lemma handler_selected:
  assumes "extractEventDetails (SECRET w) (clock_verify w) ev = Inr event"
      and "destructure (req_body event) = Inr (action, d)"
  shows "handler enc w ev t = respond enc (selected w action d t)"
  using assms by (simp add: handler_def selected_def)

text \<open>
  Claim C4, as the code has it. Neither \<^verbatim>\<open>handler\<close> nor \<^verbatim>\<open>respond\<close> catches: for every
  request whose action handler rejects with a failure, the invocation rejects with that
  same failure and returns no response envelope; the table is as the handler left it.
\<close>

theorem handler_failure_propagates:
  assumes "extractEventDetails (SECRET w) (clock_verify w) ev = Inr event"
      and "destructure (req_body event) = Inr (action, d)"
      and "selected w action d t = (Inl e, t')"
  shows "handler enc w ev t = (Inl e, t')"
  using assms by (simp add: handler_selected respond_def)

theorem handler_failure_propagates_witness:
  "extractEventDetails (Some ''k'') 0
     \<lparr>ev_body = Json (JObj [(''action'', JStr ''LOGIN'')]), ev_queryStringParameters = None,
      ev_path = None, ev_httpMethod = None, ev_sourceIp = None,
      ev_headers = Some \<lparr>Authorization = None, x_api_key = None, User_Agent = None\<rparr>\<rparr>
     = Inr \<lparr>req_body = JObj [(''action'', JStr ''LOGIN'')], req_query = [], req_path = None,
            req_method = None, req_source = None, req_user = Some (JObj []),
            req_apiKey = None, req_userAgent = None\<rparr>
   \<and> destructure (JObj [(''action'', JStr ''LOGIN'')]) = Inr (Some (JStr ''LOGIN''), None)
   \<and> selected \<lparr>SECRET = Some ''k'', clock_verify = 0, clock_issue = 0, nanoid = ''n1''\<rparr>
      (Some (JStr ''LOGIN'')) None [] = (Inl TypeError, [])
   \<and> handler (\<lambda>j. [])
     \<lparr>SECRET = Some ''k'', clock_verify = 0, clock_issue = 0, nanoid = ''n1''\<rparr>
     \<lparr>ev_body = Json (JObj [(''action'', JStr ''LOGIN'')]), ev_queryStringParameters = None,
      ev_path = None, ev_httpMethod = None, ev_sourceIp = None,
      ev_headers = Some \<lparr>Authorization = None, x_api_key = None, User_Agent = None\<rparr>\<rparr>
     []
   = (Inl TypeError, [])"
  using handler_failure_propagates
          [of "\<lparr>SECRET = Some ''k'', clock_verify = 0, clock_issue = 0, nanoid = ''n1''\<rparr>"
              "\<lparr>ev_body = Json (JObj [(''action'', JStr ''LOGIN'')]), ev_queryStringParameters = None,
                ev_path = None, ev_httpMethod = None, ev_sourceIp = None,
                ev_headers = Some \<lparr>Authorization = None, x_api_key = None, User_Agent = None\<rparr>\<rparr>"
              "\<lparr>req_body = JObj [(''action'', JStr ''LOGIN'')], req_query = [], req_path = None,
                req_method = None, req_source = None, req_user = Some (JObj []),
                req_apiKey = None, req_userAgent = None\<rparr>"
              "Some (JStr ''LOGIN'')" None "[]" TypeError "[]" "\<lambda>j. []"]
  by (simp add: extractEventDetails_def checkToken_def selected_def login_def)

text \<open>
  Claim C4 as stated fails: a LOGIN request without \<^verbatim>\<open>data\<close> makes \<^verbatim>\<open>login\<close> raise a
  \<^verbatim>\<open>TypeError\<close> on \<^verbatim>\<open>data.userId\<close>, and the invocation ends with that error instead of
  a response envelope.
\<close>

theorem handler_uncaught_counterexample:
  "handler (\<lambda>j. [])
     \<lparr>SECRET = Some ''k'', clock_verify = 0, clock_issue = 0, nanoid = ''n1''\<rparr>
     \<lparr>ev_body = Json (JObj [(''action'', JStr ''LOGIN'')]), ev_queryStringParameters = None,
      ev_path = None, ev_httpMethod = None, ev_sourceIp = None,
      ev_headers = Some \<lparr>Authorization = None, x_api_key = None, User_Agent = None\<rparr>\<rparr>
     []
   = (Inl TypeError, [])"
  by (simp add: handler_def extractEventDetails_def checkToken_def respond_def login_def)

text \<open>
  Claim C9. For every request that the normaliser accepts and whose action is none of
  the nine recognised action names (also when it is absent or not a string), the response
  is the envelope with status 200, the three permissive CORS headers and the body
  \<^verbatim>\<open>{}\<close>, and the table is untouched.
\<close>

theorem unknown_action_empty_envelope:
  assumes "extractEventDetails (SECRET w) (clock_verify w) ev = Inr event"
      and "destructure (req_body event) = Inr (action, d)"
      and "\<forall>a \<in> set [''INIT'', ''LOGIN'', ''ADD_ORDER'', ''ORDER_LIST'', ''COMPLETE_ORDER'',
                       ''REOPEN_ORDER'', ''ITEM_LIST'', ''ADD_ITEM'', ''REMOVE_ITEM''].
             action \<noteq> Some (JStr a)"
  shows "handler enc w ev t
           = (Inr \<lparr>statusCode = 200,
                   headers = [(''Access-Control-Allow-Headers'', ''*''),
                              (''Access-Control-Allow-Origin'', ''*''),
                              (''Access-Control-Allow-Methods'', ''*'')],
                   body = Some ''{}''\<rparr>, t)"
  using assms by (simp add: handler_def respond_def cors_def)

theorem unknown_action_empty_envelope_witness:
  "extractEventDetails None 0
     \<lparr>ev_body = Json (JObj [(''action'', JStr ''PING'')]), ev_queryStringParameters = None,
      ev_path = None, ev_httpMethod = None, ev_sourceIp = None,
      ev_headers = Some \<lparr>Authorization = None, x_api_key = None, User_Agent = None\<rparr>\<rparr>
     = Inr \<lparr>req_body = JObj [(''action'', JStr ''PING'')], req_query = [], req_path = None,
            req_method = None, req_source = None, req_user = Some (JObj []),
            req_apiKey = None, req_userAgent = None\<rparr>
   \<and> destructure (JObj [(''action'', JStr ''PING'')]) = Inr (Some (JStr ''PING''), None)
   \<and> ''PING'' \<notin> set [''INIT'', ''LOGIN'', ''ADD_ORDER'', ''ORDER_LIST'', ''COMPLETE_ORDER'',
                       ''REOPEN_ORDER'', ''ITEM_LIST'', ''ADD_ITEM'', ''REMOVE_ITEM'']
   \<and> handler (\<lambda>j. [])
     \<lparr>SECRET = None, clock_verify = 0, clock_issue = 0, nanoid = ''n1''\<rparr>
     \<lparr>ev_body = Json (JObj [(''action'', JStr ''PING'')]), ev_queryStringParameters = None,
      ev_path = None, ev_httpMethod = None, ev_sourceIp = None,
      ev_headers = Some \<lparr>Authorization = None, x_api_key = None, User_Agent = None\<rparr>\<rparr>
     [((''item'', ''1''), [(''context'', JStr ''item''), (''id'', JStr ''1'')])]
   = (Inr \<lparr>statusCode = 200,
           headers = [(''Access-Control-Allow-Headers'', ''*''),
                      (''Access-Control-Allow-Origin'', ''*''),
                      (''Access-Control-Allow-Methods'', ''*'')],
           body = Some ''{}''\<rparr>,
      [((''item'', ''1''), [(''context'', JStr ''item''), (''id'', JStr ''1'')])])"
  using unknown_action_empty_envelope
          [of "\<lparr>SECRET = None, clock_verify = 0, clock_issue = 0, nanoid = ''n1''\<rparr>"
              "\<lparr>ev_body = Json (JObj [(''action'', JStr ''PING'')]), ev_queryStringParameters = None,
                ev_path = None, ev_httpMethod = None, ev_sourceIp = None,
                ev_headers = Some \<lparr>Authorization = None, x_api_key = None, User_Agent = None\<rparr>\<rparr>"
              "\<lparr>req_body = JObj [(''action'', JStr ''PING'')], req_query = [], req_path = None,
                req_method = None, req_source = None, req_user = Some (JObj []),
                req_apiKey = None, req_userAgent = None\<rparr>"
              "Some (JStr ''PING'')" None "\<lambda>j. []"
              "[((''item'', ''1''), [(''context'', JStr ''item''), (''id'', JStr ''1'')])]"]
  by (simp add: extractEventDetails_def checkToken_def)

end
